theory Spec2Isabelle
  imports Main
begin

section \<open>Data model\<close>

text \<open>
  The module \<^verbatim>\<open>src/gitWorkflow.js\<close> drives the \<^verbatim>\<open>git\<close> executable (through
  \<^verbatim>\<open>execa\<close>) and the file system (through \<^verbatim>\<open>fs-promise\<close>). Neither is code of the
  module, so both are parameters of the model: an environment carries the executable as a
  function from an argument vector, a working directory and the outside world to a result
  and a new world, and likewise \<^verbatim>\<open>writeFile\<close>, \<^verbatim>\<open>unlink\<close> and the functions of Node's
  \<^verbatim>\<open>path\<close> module. The type \<open>'w\<close> of the outside world (repository, stash list, files
  on disk) is arbitrary.
\<close>

text \<open>What \<^verbatim>\<open>execa\<close> resolves with, and what it rejects with (the same fields and the
  exit code).\<close>

record execa_result =
  stdout :: string
  stderr :: string

record execa_error = execa_result +
  exitCode :: int

text \<open>Everything a promise of the module can reject with: a failed command, a JavaScript
  \<^verbatim>\<open>Error\<close> with its message, a failed file-system call.\<close>

datatype error =
  CommandError execa_error
  | Error string
  | FsError string

text \<open>The \<^verbatim>\<open>options\<close> argument \<^verbatim>\<open>{ cwd, gitDir }\<close>; a missing field is \<open>None\<close>, and
  the whole argument may be missing.\<close>

record options =
  cwd :: "string option"
  gitDir :: "string option"

record 'w env =
  git :: "string list \<Rightarrow> string \<Rightarrow> 'w \<Rightarrow> (execa_error + execa_result) \<times> 'w"
  writeFile :: "string \<Rightarrow> string \<Rightarrow> 'w \<Rightarrow> (string + unit) \<times> 'w"
  unlink :: "string \<Rightarrow> 'w \<Rightarrow> (string + unit) \<times> 'w"
  process_cwd :: string
  path_isAbsolute :: "string \<Rightarrow> bool"
  path_resolve :: "string \<Rightarrow> string"
  path_join :: "string \<Rightarrow> string \<Rightarrow> string"

text \<open>
  The module-level variables \<^verbatim>\<open>patchPath\<close>, \<^verbatim>\<open>workTree\<close> and \<^verbatim>\<open>trees\<close>, together with
  the outside world. \<open>None\<close> stands for JavaScript's \<^verbatim>\<open>undefined\<close> and \<^verbatim>\<open>null\<close>, which
  the module never tells apart (it only tests \<^verbatim>\<open>!patchPath\<close> and \<^verbatim>\<open>!workTree\<close>). The
  variables \<^verbatim>\<open>indexTree\<close> and \<^verbatim>\<open>hooksTree\<close> are never read or written and are left out.
\<close>

record 'w state =
  patchPath :: "string option"
  workTree :: "string option"
  trees :: "string list"
  world :: 'w

section \<open>Promises as state passing with errors\<close>

text \<open>An asynchronous function is a function from the state to a result (\<open>Inl\<close> a
  rejection, \<open>Inr\<close> a value) and the state it leaves.\<close>

definition ret :: "'a \<Rightarrow> 's \<Rightarrow> ('e + 'a) \<times> 's" where
  "ret a s = (Inr a, s)"

definition throw :: "'e \<Rightarrow> 's \<Rightarrow> ('e + 'a) \<times> 's" where
  "throw e s = (Inl e, s)"

text \<open>\<^verbatim>\<open>await m; f\<close> and \<^verbatim>\<open>m.then(f)\<close>: a rejection of \<open>m\<close> skips \<open>f\<close>.\<close>

definition bnd :: "('s \<Rightarrow> ('e + 'a) \<times> 's) \<Rightarrow> ('a \<Rightarrow> 's \<Rightarrow> ('e + 'b) \<times> 's) \<Rightarrow> 's \<Rightarrow> ('e + 'b) \<times> 's" where
  "bnd m f s = (case m s of (Inl e, s') \<Rightarrow> (Inl e, s') | (Inr a, s') \<Rightarrow> f a s')"

text \<open>\<^verbatim>\<open>try { m } catch (e) { h }\<close> and \<^verbatim>\<open>m.catch(h)\<close>: the handler sees every
  rejection of \<open>m\<close>, whatever it is.\<close>

definition catch :: "('s \<Rightarrow> ('e + 'a) \<times> 's) \<Rightarrow> ('e \<Rightarrow> 's \<Rightarrow> ('f + 'a) \<times> 's) \<Rightarrow> 's \<Rightarrow> ('f + 'a) \<times> 's" where
  "catch m h s = (case m s of (Inl e, s') \<Rightarrow> h e s' | (Inr a, s') \<Rightarrow> (Inr a, s'))"

text \<open>A rejected command, seen by a caller that can also reject otherwise.\<close>

definition cmd :: "('s \<Rightarrow> (execa_error + 'a) \<times> 's) \<Rightarrow> 's \<Rightarrow> (error + 'a) \<times> 's" where
  "cmd m = catch m (\<lambda>e. throw (CommandError e))"

text \<open>JavaScript's truthiness of a value that is a string, \<^verbatim>\<open>null\<close> or \<^verbatim>\<open>undefined\<close>:
  the empty string is falsy too.\<close>

definition truthy :: "string option \<Rightarrow> bool" where
  "truthy v = (case v of None \<Rightarrow> False | Some x \<Rightarrow> x \<noteq> [])"

section \<open>The module\<close>

definition getAbsolutePath :: "'w env \<Rightarrow> string \<Rightarrow> string" where
  "getAbsolutePath E dir = (if path_isAbsolute E dir then dir else path_resolve E dir)"

definition getCmdArgs :: "'w env \<Rightarrow> string option \<Rightarrow> string list" where
  "getCmdArgs E gd =
     (case gd of
        None \<Rightarrow> []
      | Some d \<Rightarrow> if d \<noteq> [] then [''--git-dir'', getAbsolutePath E d] else [])"

text \<open>\<^verbatim>\<open>options && options.cwd ? options.cwd : process.cwd()\<close>\<close>

definition cwd_of :: "'w env \<Rightarrow> options option \<Rightarrow> string" where
  "cwd_of E opts =
     (case opts of
        None \<Rightarrow> process_cwd E
      | Some ops \<Rightarrow>
          (case cwd ops of
             None \<Rightarrow> process_cwd E
           | Some d \<Rightarrow> if d \<noteq> [] then d else process_cwd E))"

text \<open>\<^verbatim>\<open>options && options.gitDir\<close>\<close>

definition gitDir_of :: "options option \<Rightarrow> string option" where
  "gitDir_of opts = (case opts of None \<Rightarrow> None | Some ops \<Rightarrow> gitDir ops)"

text \<open>The call of the executable that \<^verbatim>\<open>execGit\<close> makes, on the outside world alone.\<close>

definition run_git :: "'w env \<Rightarrow> options option \<Rightarrow> string list \<Rightarrow> 'w \<Rightarrow> (execa_error + execa_result) \<times> 'w" where
  "run_git E opts c w =
     git E (getCmdArgs E (gitDir_of opts) @ c) (getAbsolutePath E (cwd_of E opts)) w"

definition execGit :: "'w env \<Rightarrow> string list \<Rightarrow> options option \<Rightarrow> 'w state \<Rightarrow> (execa_error + execa_result) \<times> 'w state" where
  "execGit E c opts s =
     (case run_git E opts c (world s) of (r, w') \<Rightarrow> (r, s\<lparr>world := w'\<rparr>))"

text \<open>\<^verbatim>\<open>fsp.writeFile\<close> and \<^verbatim>\<open>fsp.unlink\<close> on the state.\<close>

definition fs_writeFile :: "'w env \<Rightarrow> string \<Rightarrow> string \<Rightarrow> 'w state \<Rightarrow> (error + unit) \<times> 'w state" where
  "fs_writeFile E p d s =
     (case writeFile E p d (world s) of
        (Inl m, w') \<Rightarrow> (Inl (FsError m), s\<lparr>world := w'\<rparr>)
      | (Inr u, w') \<Rightarrow> (Inr u, s\<lparr>world := w'\<rparr>))"

definition fs_unlink :: "'w env \<Rightarrow> string \<Rightarrow> 'w state \<Rightarrow> (error + unit) \<times> 'w state" where
  "fs_unlink E p s =
     (case unlink E p (world s) of
        (Inl m, w') \<Rightarrow> (Inl (FsError m), s\<lparr>world := w'\<rparr>)
      | (Inr u, w') \<Rightarrow> (Inr u, s\<lparr>world := w'\<rparr>))"

text \<open>\<^verbatim>\<open>String.prototype.split\<close> with a one-character separator: the empty string
  splits into one empty piece.\<close>

fun js_split :: "char \<Rightarrow> string \<Rightarrow> string list" where
  "js_split c [] = [[]]"
| "js_split c (x # xs) =
     (if x = c then [] # js_split c xs
      else (case js_split c xs of [] \<Rightarrow> [[x]] | y # ys \<Rightarrow> (x # y) # ys))"

text \<open>
  \<^verbatim>\<open>getUnstagedFiles\<close>: the first \<^verbatim>\<open>then\<close> resolves with the result of the
  \<^verbatim>\<open>diff-index\<close> or, for an empty tree name, with the array \<^verbatim>\<open>[]\<close>, whose
  \<^verbatim>\<open>stdout\<close> is \<^verbatim>\<open>undefined\<close> (here \<open>None\<close>).
\<close>

definition getUnstagedFiles :: "'w env \<Rightarrow> options option \<Rightarrow> 'w state \<Rightarrow> (execa_error + string list) \<times> 'w state" where
  "getUnstagedFiles E opts =
     bnd (bnd (execGit E [''write-tree''] opts)
            (\<lambda>res. let tree = stdout res in
               if tree \<noteq> []
               then bnd (execGit E [''diff-index'', ''--name-only'', tree, ''--''] opts)
                      (\<lambda>r. ret (Some r))
               else ret None))
       (\<lambda>files. ret (case files of
                      None \<Rightarrow> []
                    | Some r \<Rightarrow> if stdout r \<noteq> [] then js_split (CHR 0x0A) (stdout r) else []))"

definition hasUnstagedFiles :: "'w env \<Rightarrow> options option \<Rightarrow> 'w state \<Rightarrow> (execa_error + bool) \<times> 'w state" where
  "hasUnstagedFiles E opts =
     bnd (getUnstagedFiles E opts) (\<lambda>files. ret (length files > 0))"

text \<open>
  \<^verbatim>\<open>generatePatch\<close>: the chain \<^verbatim>\<open>execGit(...).then(...).then(...)\<close> resolves with
  \<^verbatim>\<open>undefined\<close>; the final \<^verbatim>\<open>catch\<close> receives whatever the chain rejected with,
  writes its \<^verbatim>\<open>stdout\<close> to the patch file and resolves with the file's path.
\<close>

definition diff_args :: "string \<Rightarrow> string list" where
  "diff_args tree =
     [''diff-index'', ''--exit-code'', ''--ignore-submodules'', ''--binary'', ''--no-color'',
      ''--no-ext-diff'', tree, ''--'']"

definition generatePatch :: "'w env \<Rightarrow> options option \<Rightarrow> 'w state \<Rightarrow> (error + string option) \<times> 'w state" where
  "generatePatch E opts =
     (let cwd = cwd_of E opts in
      catch
        (bnd (bnd (execGit E [''write-tree''] opts)
                (\<lambda>res. let tree = stdout res in
                   if tree \<noteq> []
                   then bnd (execGit E (diff_args tree) opts) (\<lambda>r. ret ())
                   else ret ()))
           (\<lambda>_. ret None))
        (\<lambda>res. let patch = stdout res;
                    filePath = path_join E cwd ''.lint-staged.patch''
                in bnd (fs_writeFile E filePath patch) (\<lambda>_. ret (Some filePath))))"

definition gitApply :: "'w env \<Rightarrow> string \<Rightarrow> options option \<Rightarrow> 'w state \<Rightarrow> (execa_error + execa_result) \<times> 'w state" where
  "gitApply E patch opts = execGit E [''apply'', ''--whitespace=nowarn'', patch] opts"

text \<open>The name of the second entry of the stash list, \<^verbatim>\<open>stash\<close> followed by an at sign
  and \<^verbatim>\<open>{1}\<close>.\<close>

definition stash_1 :: string where
  "stash_1 = ''stash'' @ [CHR 0x40] @ ''{1}''"

definition gitPopWithConflicts :: "'w env \<Rightarrow> options option \<Rightarrow> 'w state \<Rightarrow> (execa_error + execa_result) \<times> 'w state" where
  "gitPopWithConflicts E opts =
     bnd (execGit E [''stash''] opts)
       (\<lambda>_. bnd (execGit E [''stash'', ''pop'', stash_1] opts)
          (\<lambda>_. execGit E [''read-tree'', ''-m'', ''-i'', ''stash''] opts))"

definition writeTree :: "'w env \<Rightarrow> options option \<Rightarrow> 'w state \<Rightarrow> (execa_error + string) \<times> 'w state" where
  "writeTree E opts = bnd (execGit E [''write-tree''] opts) (\<lambda>r. ret (stdout r))"

text \<open>An array element that is \<^verbatim>\<open>undefined\<close> cannot be passed as an argument of a
  command: spawning the process throws a \<^verbatim>\<open>TypeError\<close>.\<close>

definition read_tree_at :: "'w env \<Rightarrow> nat \<Rightarrow> options option \<Rightarrow> 'w state \<Rightarrow> (error + execa_result) \<times> 'w state" where
  "read_tree_at E i opts s =
     (if i < length (trees s) then cmd (execGit E [''read-tree'', trees s ! i] opts) s
      else throw (Error ''TypeError'') s)"

definition gitStash :: "'w env \<Rightarrow> options option \<Rightarrow> 'w state \<Rightarrow> (error + unit) \<times> 'w state" where
  "gitStash E opts =
     bnd (cmd (writeTree E opts))
       (\<lambda>t. bnd (\<lambda>s. ret () (s\<lparr>trees := [t]\<rparr>))
          (\<lambda>_. bnd (cmd (execGit E [''add'', ''.''] opts))
             (\<lambda>_. bnd (cmd (writeTree E opts))
                (\<lambda>t'. bnd (\<lambda>s. ret () (s\<lparr>workTree := Some t'\<rparr>))
                   (\<lambda>_. bnd (read_tree_at E 0 opts)
                      (\<lambda>_. bnd (cmd (execGit E [''checkout-index'', ''-af''] opts))
                         (\<lambda>_. ret ())))))))"

text \<open>\<^verbatim>\<open>trees = [...trees, await writeTree(options)]\<close>: the old ledger is read before
  the command runs.\<close>

definition updateStash :: "'w env \<Rightarrow> options option \<Rightarrow> 'w state \<Rightarrow> (error + unit) \<times> 'w state" where
  "updateStash E opts s =
     bnd (cmd (writeTree E opts)) (\<lambda>t s'. ret () (s'\<lparr>trees := trees s @ [t]\<rparr>)) s"

definition gitPop :: "'w env \<Rightarrow> options option \<Rightarrow> 'w state \<Rightarrow> (error + unit) \<times> 'w state" where
  "gitPop E opts s =
     (case workTree s of
        None \<Rightarrow> throw (Error ''Need 2 tree-ish to be set!'') s
      | Some w \<Rightarrow>
          if w = [] \<or> length (trees s) = 0
          then throw (Error ''Need 2 tree-ish to be set!'') s
          else
            bnd (cmd (execGit E [''read-tree'', w] opts))
              (\<lambda>_. bnd (cmd (execGit E [''checkout-index'', ''-af''] opts))
                 (\<lambda>_. bnd (\<lambda>s'. if length (trees s') = 1 then read_tree_at E 0 opts s'
                                 else read_tree_at E 1 opts s')
                    (\<lambda>_. bnd (cmd (execGit E [''checkout-index''] opts))
                       (\<lambda>_. ret ())))) s)"

text \<open>\<^verbatim>\<open>cleanup\<close> reads \<^verbatim>\<open>patchPath\<close> after the \<^verbatim>\<open>stash drop\<close> has returned;
  \<^verbatim>\<open>fsp.unlink\<close> of a value that is no path throws a \<^verbatim>\<open>TypeError\<close>.\<close>

definition cleanup :: "'w env \<Rightarrow> options option \<Rightarrow> 'w state \<Rightarrow> (error + unit) \<times> 'w state" where
  "cleanup E opts =
     bnd (cmd (execGit E [''stash'', ''drop''] opts))
       (\<lambda>_. bnd (\<lambda>s. case patchPath s of
                         None \<Rightarrow> throw (Error ''TypeError'') s
                       | Some p \<Rightarrow> fs_unlink E p s)
          (\<lambda>_ s. ret () (s\<lparr>patchPath := None\<rparr>)))"

text \<open>\<^verbatim>\<open>gitApplyPatch\<close>: the \<^verbatim>\<open>try\<close> block, its handler (which ignores the error it
  caught; its message on the console is left out), then \<^verbatim>\<open>cleanup\<close>.\<close>

definition gitApplyPatch :: "'w env \<Rightarrow> string \<Rightarrow> options option \<Rightarrow> 'w state \<Rightarrow> (error + unit) \<times> 'w state" where
  "gitApplyPatch E patch opts =
     bnd (catch
            (bnd (cmd (execGit E [''checkout'', ''--'', ''.''] opts))
               (\<lambda>_. bnd (cmd (gitApply E patch opts)) (\<lambda>_. ret ())))
            (\<lambda>err. bnd (cmd (gitPopWithConflicts E opts)) (\<lambda>_. ret ())))
       (\<lambda>_. cleanup E opts)"

definition gitStashSave :: "'w env \<Rightarrow> options option \<Rightarrow> 'w state \<Rightarrow> (error + execa_result option) \<times> 'w state" where
  "gitStashSave E opts =
     bnd (cmd (hasUnstagedFiles E opts))
       (\<lambda>hasUnstaged.
          if hasUnstaged
          then bnd (generatePatch E opts)
                 (\<lambda>p. bnd (\<lambda>s. ret () (s\<lparr>patchPath := p\<rparr>))
                    (\<lambda>_. bnd (cmd (execGit E [''stash'', ''--keep-index''] opts))
                       (\<lambda>r. ret (Some r))))
          else ret None)"

definition gitStashPop :: "'w env \<Rightarrow> options option \<Rightarrow> 'w state \<Rightarrow> (error + unit) \<times> 'w state" where
  "gitStashPop E opts s =
     (case patchPath s of
        None \<Rightarrow> throw (Error ''No patch found'') s
      | Some p \<Rightarrow>
          if p = [] then throw (Error ''No patch found'') s
          else gitApplyPatch E p opts s)"

section \<open>A small repository to run the module on\<close>

text \<open>
  An executable stand-in for the executable and the file system, used only to exhibit
  concrete runs. The staged content and the content of the tracked files are one string
  each, a stash entry is a pair of them, a tree is named after its content, a patch is
  the new content of the tracked files, the other files on disk are a map from paths to
  bytes, and every command is recorded. A test can replace
  the answer of chosen commands (\<open>over\<close>), for example to make one fail.
\<close>

record repo =
  r_head :: string
  r_index :: string
  r_work :: string
  r_stash :: "(string \<times> string) list"
  r_files :: "string \<Rightarrow> string option"
  r_history :: "string list list"

definition ok :: "string \<Rightarrow> repo \<Rightarrow> (execa_error + execa_result) \<times> repo" where
  "ok out w = (Inr \<lparr>stdout = out, stderr = []\<rparr>, w)"

definition failed :: "int \<Rightarrow> string \<Rightarrow> repo \<Rightarrow> (execa_error + execa_result) \<times> repo" where
  "failed n out w = (Inl \<lparr>stdout = out, stderr = ''fatal'', exitCode = n\<rparr>, w)"

definition sim_cmd :: "string list \<Rightarrow> repo \<Rightarrow> (execa_error + execa_result) \<times> repo" where
  "sim_cmd a w =
     (if a = [''write-tree''] then ok (''tree-'' @ r_index w) w
      else if take 2 a = [''diff-index'', ''--name-only'']
        then ok (if r_work w = r_index w then [] else ''a.txt'') w
      else if take 2 a = [''diff-index'', ''--exit-code'']
        then (if r_work w = r_index w then ok [] w else failed 1 (r_work w) w)
      else if a = [''stash'', ''--keep-index'']
        then ok [] (w\<lparr>r_stash := (r_index w, r_work w) # r_stash w, r_work := r_index w\<rparr>)
      else if a = [''stash'']
        then ok [] (w\<lparr>r_stash := (r_index w, r_work w) # r_stash w,
                       r_index := r_head w, r_work := r_head w\<rparr>)
      else if a = [''stash'', ''pop'', stash_1]
        then (case r_stash w of
                x # (i, t) # rest \<Rightarrow> ok [] (w\<lparr>r_stash := x # rest, r_index := i, r_work := t\<rparr>)
              | _ \<Rightarrow> failed 1 [] w)
      else if a = [''stash'', ''drop'']
        then (case r_stash w of
                [] \<Rightarrow> failed 1 [] w
              | x # rest \<Rightarrow> ok [] (w\<lparr>r_stash := rest\<rparr>))
      else if a = [''read-tree'', ''-m'', ''-i'', ''stash'']
        then (case r_stash w of
                [] \<Rightarrow> failed 128 [] w
              | (i, t) # rest \<Rightarrow> ok [] (w\<lparr>r_index := i\<rparr>))
      else if a = [''checkout'', ''--'', ''.''] then ok [] (w\<lparr>r_work := r_index w\<rparr>)
      else if length a = 3 \<and> take 2 a = [''apply'', ''--whitespace=nowarn'']
        then (case r_files w (a ! 2) of
                None \<Rightarrow> failed 128 [] w
              | Some d \<Rightarrow> ok [] (w\<lparr>r_work := d\<rparr>))
      else if a = [''add'', ''.''] then ok [] (w\<lparr>r_index := r_work w\<rparr>)
      else if length a = 2 \<and> take 1 a = [''read-tree'']
        then ok [] (w\<lparr>r_index := drop 5 (a ! 1)\<rparr>)
      else if take 1 a = [''checkout-index''] then ok [] (w\<lparr>r_work := r_index w\<rparr>)
      else failed 1 [] w)"

definition sim_git :: "(string list \<Rightarrow> (execa_error + execa_result) option) \<Rightarrow> string list \<Rightarrow> string \<Rightarrow> repo \<Rightarrow> (execa_error + execa_result) \<times> repo" where
  "sim_git over a dir w =
     (let w' = w\<lparr>r_history := r_history w @ [a]\<rparr>
      in case over a of Some r \<Rightarrow> (r, w') | None \<Rightarrow> sim_cmd a w')"

definition sim_writeFile :: "string \<Rightarrow> string \<Rightarrow> repo \<Rightarrow> (string + unit) \<times> repo" where
  "sim_writeFile p d w = (Inr (), w\<lparr>r_files := (r_files w)(p \<mapsto> d)\<rparr>)"

definition sim_unlink :: "string \<Rightarrow> repo \<Rightarrow> (string + unit) \<times> repo" where
  "sim_unlink p w =
     (if r_files w p = None then (Inl ''ENOENT'', w)
      else (Inr (), w\<lparr>r_files := (r_files w)(p := None)\<rparr>))"

definition sim_env :: "(string list \<Rightarrow> (execa_error + execa_result) option) \<Rightarrow> repo env" where
  "sim_env over =
     \<lparr>git = sim_git over, writeFile = sim_writeFile, unlink = sim_unlink,
      process_cwd = ''/repo'',
      path_isAbsolute = (\<lambda>p. take 1 p = ''/''),
      path_resolve = (\<lambda>p. ''/repo/'' @ p),
      path_join = (\<lambda>a b. a @ ''/'' @ b)\<rparr>"

text \<open>The answers of the executable are those of the small repository.\<close>

definition plain :: "string list \<Rightarrow> (execa_error + execa_result) option" where
  "plain a = None"

text \<open>One command is given a fixed answer.\<close>

definition answering :: "string list \<Rightarrow> (execa_error + execa_result) \<Rightarrow> string list \<Rightarrow> (execa_error + execa_result) option" where
  "answering c r a = (if a = c then Some r else None)"

definition fatal :: "execa_error" where
  "fatal = \<lparr>stdout = [], stderr = ''fatal'', exitCode = 128\<rparr>"

definition silent :: "execa_result" where
  "silent = \<lparr>stdout = [], stderr = []\<rparr>"

definition repo0 :: "string \<Rightarrow> string \<Rightarrow> repo" where
  "repo0 i t = \<lparr>r_head = ''v0'', r_index = i, r_work = t, r_stash = [], r_files = Map.empty, r_history = []\<rparr>"

definition state0 :: "repo \<Rightarrow> repo state" where
  "state0 w = \<lparr>patchPath = None, workTree = None, trees = [], world = w\<rparr>"

section \<open>Vocabulary of the properties\<close>

text \<open>Running a list of commands in order, stopping at the first that fails.\<close>

fun run_all :: "'w env \<Rightarrow> options option \<Rightarrow> string list list \<Rightarrow> 'w state \<Rightarrow> (error + unit) \<times> 'w state" where
  "run_all E opts [] s = (Inr (), s)"
| "run_all E opts (c # cs) s =
     (case execGit E c opts s of
        (Inl e, s') \<Rightarrow> (Inl (CommandError e), s')
      | (Inr r, s') \<Rightarrow> run_all E opts cs s')"

text \<open>The fixed name of the patch file under the working directory.\<close>

definition patch_file :: "'w env \<Rightarrow> options option \<Rightarrow> string" where
  "patch_file E opts = path_join E (cwd_of E opts) ''.lint-staged.patch''"

text \<open>Writing given bytes to the patch file and answering with its path; only a failure
  of the write itself is an error.\<close>

definition write_patch :: "'w env \<Rightarrow> options option \<Rightarrow> string \<Rightarrow> 'w state \<Rightarrow> (error + string option) \<times> 'w state" where
  "write_patch E opts bytes s =
     (case writeFile E (patch_file E opts) bytes (world s) of
        (Inl m, w') \<Rightarrow> (Inl (FsError m), s\<lparr>world := w'\<rparr>)
      | (Inr u, w') \<Rightarrow> (Inr (Some (patch_file E opts)), s\<lparr>world := w'\<rparr>))"

subsection \<open>Concrete sessions\<close>

text \<open>A repository with \<open>v1\<close> staged and \<open>v2\<close> on disk, before anything has run.\<close>

definition dirty :: "repo state" where
  "dirty = state0 (repo0 ''v1'' ''v2'')"

text \<open>The same repository with nothing unstaged.\<close>

definition clean :: "repo state" where
  "clean = state0 (repo0 ''v1'' ''v1'')"

text \<open>The state that \<^verbatim>\<open>gitStashSave\<close> leaves on the first repository.\<close>

definition stashed :: "repo state" where
  "stashed =
     \<lparr>patchPath = Some ''/repo/.lint-staged.patch'', workTree = None, trees = [],
      world = \<lparr>r_head = ''v0'', r_index = ''v1'', r_work = ''v1'', r_stash = [(''v1'', ''v2'')],
        r_files = [''/repo/.lint-staged.patch'' \<mapsto> ''v2''],
        r_history = [[''write-tree''], [''diff-index'', ''--name-only'', ''tree-v1'', ''--''],
          [''write-tree''], diff_args ''tree-v1'', [''stash'', ''--keep-index'']]\<rparr>\<rparr>"

text \<open>A tree ledger of two entries, as \<^verbatim>\<open>gitStash\<close> followed by one \<^verbatim>\<open>updateStash\<close>
  leaves it.\<close>

definition ledger2 :: "repo state" where
  "ledger2 = \<lparr>patchPath = None, workTree = Some ''tree-w'', trees = [''tree-a'', ''tree-b''],
              world = repo0 ''b'' ''b''\<rparr>"




subsection \<open>What the executable is relied on to do\<close>

text \<open>
  What a property of the repository can see of the outside world: the content of the
  tracked files on disk, the staged content, the stash list (each entry the staged
  content and the content on disk when it was made) and the other files on disk by path.
  The type \<open>'c\<close> of contents is arbitrary.
\<close>

record 'c view =
  v_work :: 'c
  v_index :: 'c
  v_stash :: "('c \<times> 'c) list"
  v_files :: "string \<Rightarrow> string option"

text \<open>
  The documented behaviour of the commands that \<^verbatim>\<open>gitStashSave\<close> runs, as far as the
  view goes: \<^verbatim>\<open>write-tree\<close> and \<^verbatim>\<open>diff-index\<close> change nothing, a successful
  \<^verbatim>\<open>writeFile\<close> stores the bytes under the path, and a successful
  \<^verbatim>\<open>stash --keep-index\<close> adds one stash entry, keeps the index and makes the tracked
  files equal to it.
\<close>

definition contract_save :: "'w env \<Rightarrow> options option \<Rightarrow> ('w \<Rightarrow> 'c view) \<Rightarrow> bool" where
  "contract_save E opts view \<longleftrightarrow>
     (\<forall>w. view (snd (run_git E opts [''write-tree''] w)) = view w)
   \<and> (\<forall>t w. view (snd (run_git E opts [''diff-index'', ''--name-only'', t, ''--''] w)) = view w)
   \<and> (\<forall>t w. view (snd (run_git E opts (diff_args t) w)) = view w)
   \<and> (\<forall>p d w w'. writeFile E p d w = (Inr (), w')
         \<longrightarrow> view w' = (view w)\<lparr>v_files := (v_files (view w))(p \<mapsto> d)\<rparr>)
   \<and> (\<forall>w r w'. run_git E opts [''stash'', ''--keep-index''] w = (Inr r, w')
         \<longrightarrow> view w' = (view w)\<lparr>v_work := v_index (view w),
                                 v_stash := (v_index (view w), v_work (view w)) # v_stash (view w)\<rparr>)"


text \<open>The view of the small repository, and its patches: a patch is the new content.\<close>

definition sim_view :: "repo \<Rightarrow> string view" where
  "sim_view w = \<lparr>v_work = r_work w, v_index = r_index w, v_stash = r_stash w, v_files = r_files w\<rparr>"



section \<open>Basic facts\<close>

lemmas monad_defs = bnd_def ret_def throw_def catch_def cmd_def

lemmas sim_defs = sim_env_def sim_git_def sim_cmd_def sim_writeFile_def sim_unlink_def
  ok_def failed_def plain_def answering_def fatal_def silent_def repo0_def state0_def
  run_git_def getCmdArgs_def getAbsolutePath_def cwd_of_def gitDir_of_def stash_1_def

lemma execGit_unfold:
  "execGit E c opts s =
     (fst (run_git E opts c (world s)), s\<lparr>world := snd (run_git E opts c (world s))\<rparr>)"
  by (simp add: execGit_def split: prod.splits)

text \<open>What \<^verbatim>\<open>generatePatch\<close> does, by the answers of the two commands it runs.\<close>

lemma generatePatch_cases:
  "generatePatch E opts s =
     (case run_git E opts [''write-tree''] (world s) of
        (Inl e, w1) \<Rightarrow> write_patch E opts (stdout e) (s\<lparr>world := w1\<rparr>)
      | (Inr r, w1) \<Rightarrow>
          if stdout r = [] then (Inr None, s\<lparr>world := w1\<rparr>)
          else (case run_git E opts (diff_args (stdout r)) w1 of
                  (Inl e, w2) \<Rightarrow> write_patch E opts (stdout e) (s\<lparr>world := w2\<rparr>)
                | (Inr r', w2) \<Rightarrow> (Inr None, s\<lparr>world := w2\<rparr>)))"
proof (cases "run_git E opts [''write-tree''] (world s)")
  case (Pair a w1)
  show ?thesis
  proof (cases a)
    case (Inl e)
    with Pair show ?thesis
      by (simp add: generatePatch_def write_patch_def patch_file_def fs_writeFile_def monad_defs
            execGit_def Let_def split: prod.splits sum.splits)
  next
    case (Inr r)
    show ?thesis
    proof (cases "stdout r = []")
      case True
      with Pair Inr show ?thesis
        by (simp add: generatePatch_def monad_defs execGit_def Let_def)
    next
      case False
      obtain b w2 where d: "run_git E opts (diff_args (stdout r)) w1 = (b, w2)"
        by (cases "run_git E opts (diff_args (stdout r)) w1")
      with Pair Inr False show ?thesis
        by (cases b)
           (simp_all add: generatePatch_def write_patch_def patch_file_def fs_writeFile_def
              monad_defs execGit_def Let_def split: prod.splits sum.splits)
    qed
  qed
qed


lemma cleanup_stashed:
  "cleanup (sim_env plain) None stashed =
     (Inr (), stashed\<lparr>patchPath := None,
        world := (world stashed)\<lparr>r_stash := [], r_files := Map.empty,
          r_history := r_history (world stashed) @ [[''stash'', ''drop'']]\<rparr>\<rparr>)"
  by (simp add: stashed_def cleanup_def fs_unlink_def execGit_def monad_defs sim_defs Let_def)

section \<open>Restoring without a patch\<close>

text \<open>
  C7. \<^verbatim>\<open>gitStashPop\<close> called when no patch path is remembered (none was ever set, it is
  empty, or \<^verbatim>\<open>cleanup\<close> has just cleared it) fails with the error \<^verbatim>\<open>No patch found\<close>
  and leaves the whole state, the outside world included, as it was: no command runs.
\<close>

theorem gitStashPop_without_patch:
  assumes "patchPath s = None \<or> patchPath s = Some [] \<or> (\<exists>s0 u. cleanup E opts0 s0 = (Inr u, s))"
  shows "gitStashPop E opts s = (Inl (Error ''No patch found''), s)"
proof -
  have "patchPath s = None" if "cleanup E opts0 s0 = (Inr u, s)" for s0 u
    using that
    by (auto simp: cleanup_def monad_defs fs_unlink_def execGit_def
             split: prod.splits sum.splits option.splits)
  with assms have "patchPath s = None \<or> patchPath s = Some []" by blast
  then show ?thesis
    by (auto simp: gitStashPop_def throw_def)
qed

theorem gitStashPop_without_patch_witness:
  "fst (cleanup (sim_env plain) None stashed) = Inr ()
   \<and> gitStashPop (sim_env plain) None (snd (cleanup (sim_env plain) None stashed))
       = (Inl (Error ''No patch found''), snd (cleanup (sim_env plain) None stashed))
   \<and> gitStashPop (sim_env plain) None dirty = (Inl (Error ''No patch found''), dirty)"
  using gitStashPop_without_patch
          [of "snd (cleanup (sim_env plain) None stashed)" "sim_env plain" None None]
        gitStashPop_without_patch [of dirty "sim_env plain" None None]
  by (simp add: cleanup_stashed dirty_def state0_def)

section \<open>Cleanup\<close>

text \<open>
  C10. \<^verbatim>\<open>cleanup\<close> runs \<^verbatim>\<open>stash drop\<close> first. When that command fails, \<^verbatim>\<open>cleanup\<close>
  rejects with the command's error; the outside world is the one the failed command
  left (\<^verbatim>\<open>unlink\<close> is never called, so the patch file stays), and the remembered patch
  path is still set.
\<close>

theorem cleanup_stash_drop_fails:
  assumes "run_git E opts [''stash'', ''drop''] (world s) = (Inl e, w')"
  shows "cleanup E opts s = (Inl (CommandError e), s\<lparr>world := w'\<rparr>)
       \<and> patchPath (snd (cleanup E opts s)) = patchPath s"
  using assms by (simp add: cleanup_def monad_defs execGit_def)

theorem cleanup_stash_drop_fails_witness:
  "run_git (sim_env (answering [''stash'', ''drop''] (Inl fatal))) None [''stash'', ''drop'']
       (world stashed)
     = (Inl fatal, (world stashed)\<lparr>r_history := r_history (world stashed) @ [[''stash'', ''drop'']]\<rparr>)
   \<and> fst (cleanup (sim_env (answering [''stash'', ''drop''] (Inl fatal))) None stashed)
     = Inl (CommandError fatal)
   \<and> patchPath (snd (cleanup (sim_env (answering [''stash'', ''drop''] (Inl fatal))) None stashed))
     = Some ''/repo/.lint-staged.patch''
   \<and> r_files (world (snd (cleanup (sim_env (answering [''stash'', ''drop''] (Inl fatal))) None stashed)))
       ''/repo/.lint-staged.patch'' = Some ''v2''"
proof -
  have run: "run_git (sim_env (answering [''stash'', ''drop''] (Inl fatal))) None [''stash'', ''drop'']
       (world stashed)
     = (Inl fatal, (world stashed)\<lparr>r_history := r_history (world stashed) @ [[''stash'', ''drop'']]\<rparr>)"
    by (simp add: stashed_def sim_defs)
  from cleanup_stash_drop_fails [OF run] run show ?thesis
    by (simp add: stashed_def)
qed

section \<open>The tree ledger\<close>

text \<open>
  C9, as the code has it. With the working-tree reference set and a ledger that is not
  empty, \<^verbatim>\<open>gitPop\<close> runs four commands in order, stopping at the first that fails:
  \<^verbatim>\<open>read-tree W\<close>, \<^verbatim>\<open>checkout-index -af\<close>, \<^verbatim>\<open>read-tree T\<close> and \<^verbatim>\<open>checkout-index\<close>,
  where \<open>T\<close> is the only entry of a ledger of length one and the second entry (index 1)
  of any longer ledger.
\<close>

theorem gitPop_commands:
  assumes "workTree s = Some w" and "w \<noteq> []" and "trees s \<noteq> []"
  shows "gitPop E opts s =
           run_all E opts
             [[''read-tree'', w], [''checkout-index'', ''-af''],
              [''read-tree'', trees s ! (if length (trees s) = 1 then 0 else 1)],
              [''checkout-index'']] s"
proof -
  from assms(3) have len: "length (trees s) = 1 \<or> 1 < length (trees s)"
    by (cases "trees s") auto
  show ?thesis
    using assms len
    by (auto simp: gitPop_def read_tree_at_def monad_defs execGit_unfold split: sum.splits)
qed

theorem gitPop_commands_witness:
  "gitPop (sim_env plain) None ledger2 =
     run_all (sim_env plain) None
       [[''read-tree'', ''tree-w''], [''checkout-index'', ''-af''], [''read-tree'', ''tree-b''],
        [''checkout-index'']] ledger2"
  using gitPop_commands [of ledger2 "''tree-w''" "sim_env plain" None]
  by (simp add: ledger2_def)

text \<open>
  The specification names the second-to-last entry for a ledger longer than one. On the ledger
  \<open>[tree-a, tree-b]\<close> the third command of \<^verbatim>\<open>gitPop\<close> reads \<open>tree-b\<close>, the last entry, and
  not \<open>tree-a\<close>, the second-to-last.
\<close>

theorem gitPop_second_to_last_counterexample:
  "r_history (world (snd (gitPop (sim_env plain) None ledger2))) ! 2
     \<noteq> [''read-tree'', trees ledger2 ! (length (trees ledger2) - 2)]
   \<and> r_history (world (snd (gitPop (sim_env plain) None ledger2))) ! 2
     = [''read-tree'', last (trees ledger2)]"
  by (simp add: ledger2_def gitPop_def read_tree_at_def execGit_def monad_defs sim_defs Let_def)

section \<open>Capturing the patch\<close>




text \<open>
  C8. When \<^verbatim>\<open>write-tree\<close> prints no tree name, or the \<^verbatim>\<open>diff-index --exit-code\<close> of the
  tree succeeds (no difference), \<^verbatim>\<open>generatePatch\<close> resolves with no path and the outside
  world is the one these commands left: no file is written. When the diff fails (a
  difference) and the write succeeds, the bytes written to
  \<^verbatim>\<open><cwd>/.lint-staged.patch\<close> are the standard output of the diff, unchanged, and the
  result is that path.
\<close>

theorem generatePatch_result:
  assumes "run_git E opts [''write-tree''] (world s) = (Inr r, w1)"
  shows "(stdout r = [] \<longrightarrow> generatePatch E opts s = (Inr None, s\<lparr>world := w1\<rparr>))
       \<and> (\<forall>r' w2. stdout r \<noteq> [] \<and> run_git E opts (diff_args (stdout r)) w1 = (Inr r', w2)
            \<longrightarrow> generatePatch E opts s = (Inr None, s\<lparr>world := w2\<rparr>))
       \<and> (\<forall>e w2 w3. stdout r \<noteq> [] \<and> run_git E opts (diff_args (stdout r)) w1 = (Inl e, w2)
              \<and> writeFile E (path_join E (cwd_of E opts) ''.lint-staged.patch'') (stdout e) w2
                  = (Inr (), w3)
            \<longrightarrow> generatePatch E opts s
                  = (Inr (Some (path_join E (cwd_of E opts) ''.lint-staged.patch'')),
                     s\<lparr>world := w3\<rparr>))"
  using assms
  by (auto simp: generatePatch_cases write_patch_def patch_file_def)

theorem generatePatch_result_witness:
  "generatePatch (sim_env (answering [''write-tree''] (Inr silent))) None dirty
     = (Inr None, dirty\<lparr>world := (world dirty)\<lparr>r_history := [[''write-tree'']]\<rparr>\<rparr>)
   \<and> generatePatch (sim_env plain) None clean
     = (Inr None, clean\<lparr>world := (world clean)\<lparr>r_history := [[''write-tree''], diff_args ''tree-v1'']\<rparr>\<rparr>)
   \<and> generatePatch (sim_env plain) None dirty
     = (Inr (Some ''/repo/.lint-staged.patch''),
        dirty\<lparr>world := (world dirty)\<lparr>r_history := [[''write-tree''], diff_args ''tree-v1''],
                 r_files := [''/repo/.lint-staged.patch'' \<mapsto> ''v2'']\<rparr>\<rparr>)"
proof -
  have a: "run_git (sim_env (answering [''write-tree''] (Inr silent))) None [''write-tree''] (world dirty)
             = (Inr silent, (world dirty)\<lparr>r_history := [[''write-tree'']]\<rparr>)"
    by (simp add: dirty_def sim_defs)
  have b: "run_git (sim_env plain) None [''write-tree''] (world clean)
             = (Inr \<lparr>stdout = ''tree-v1'', stderr = []\<rparr>, (world clean)\<lparr>r_history := [[''write-tree'']]\<rparr>)"
    by (simp add: clean_def sim_defs)
  have c: "run_git (sim_env plain) None [''write-tree''] (world dirty)
             = (Inr \<lparr>stdout = ''tree-v1'', stderr = []\<rparr>, (world dirty)\<lparr>r_history := [[''write-tree'']]\<rparr>)"
    by (simp add: dirty_def sim_defs)
  have b': "run_git (sim_env plain) None (diff_args ''tree-v1'') ((world clean)\<lparr>r_history := [[''write-tree'']]\<rparr>)
             = (Inr silent, (world clean)\<lparr>r_history := [[''write-tree''], diff_args ''tree-v1'']\<rparr>)"
    by (simp add: clean_def sim_defs diff_args_def)
  have c': "run_git (sim_env plain) None (diff_args ''tree-v1'') ((world dirty)\<lparr>r_history := [[''write-tree'']]\<rparr>)
             = (Inl \<lparr>stdout = ''v2'', stderr = ''fatal'', exitCode = 1\<rparr>,
                (world dirty)\<lparr>r_history := [[''write-tree''], diff_args ''tree-v1'']\<rparr>)"
    by (simp add: dirty_def sim_defs diff_args_def)
  have c'': "writeFile (sim_env plain) (path_join (sim_env plain) (cwd_of (sim_env plain) None) ''.lint-staged.patch'')
               ''v2'' ((world dirty)\<lparr>r_history := [[''write-tree''], diff_args ''tree-v1'']\<rparr>)
             = (Inr (), (world dirty)\<lparr>r_history := [[''write-tree''], diff_args ''tree-v1''],
                 r_files := [''/repo/.lint-staged.patch'' \<mapsto> ''v2'']\<rparr>)"
    by (simp add: dirty_def sim_defs)
  from generatePatch_result [OF a] generatePatch_result [OF b] generatePatch_result [OF c]
       b' c' c''
  show ?thesis
    by (simp add: silent_def sim_env_def cwd_of_def)
qed

section \<open>Facts about change detection and saving\<close>

lemma getUnstagedFiles_cases:
  "getUnstagedFiles E opts s =
     (case run_git E opts [''write-tree''] (world s) of
        (Inl e, w1) \<Rightarrow> (Inl e, s\<lparr>world := w1\<rparr>)
      | (Inr r, w1) \<Rightarrow>
          if stdout r = [] then (Inr [], s\<lparr>world := w1\<rparr>)
          else (case run_git E opts [''diff-index'', ''--name-only'', stdout r, ''--''] w1 of
                  (Inl e, w2) \<Rightarrow> (Inl e, s\<lparr>world := w2\<rparr>)
                | (Inr r', w2) \<Rightarrow>
                    (Inr (if stdout r' \<noteq> [] then js_split (CHR 0x0A) (stdout r') else []),
                     s\<lparr>world := w2\<rparr>)))"
  by (simp add: getUnstagedFiles_def monad_defs execGit_def Let_def split: prod.splits sum.splits)

text \<open>Change detection only runs the two read-only commands and touches no variable.\<close>

lemma hasUnstagedFiles_frame:
  assumes "hasUnstagedFiles E opts s = (a, s1)"
    and wt: "\<And>w. obs (snd (run_git E opts [''write-tree''] w)) = obs w"
    and dn: "\<And>t w. obs (snd (run_git E opts [''diff-index'', ''--name-only'', t, ''--''] w)) = obs w"
  shows "s1 = s\<lparr>world := world s1\<rparr> \<and> obs (world s1) = obs (world s)"
proof -
  obtain b w1 where 1: "run_git E opts [''write-tree''] (world s) = (b, w1)"
    by (cases "run_git E opts [''write-tree''] (world s)")
  from wt [of "world s"] 1 have o1: "obs w1 = obs (world s)" by simp
  show ?thesis
  proof (cases b)
    case (Inl e)
    with assms(1) 1 o1 show ?thesis
      by (auto simp: hasUnstagedFiles_def getUnstagedFiles_cases monad_defs)
  next
    case (Inr r)
    show ?thesis
    proof (cases "stdout r = []")
      case True
      with assms(1) 1 o1 Inr show ?thesis
        by (auto simp: hasUnstagedFiles_def getUnstagedFiles_cases monad_defs)
    next
      case False
      obtain b' w2 where 2: "run_git E opts [''diff-index'', ''--name-only'', stdout r, ''--''] w1 = (b', w2)"
        by (cases "run_git E opts [''diff-index'', ''--name-only'', stdout r, ''--''] w1")
      from dn [of "stdout r" w1] 2 o1 have o2: "obs w2 = obs (world s)" by simp
      from assms(1) 1 2 o2 Inr False show ?thesis
        by (cases b') (auto simp: hasUnstagedFiles_def getUnstagedFiles_cases monad_defs)
    qed
  qed
qed



lemma contract_saveD:
  assumes "contract_save E opts view"
  shows "view (snd (run_git E opts [''write-tree''] w)) = view w"
    and "view (snd (run_git E opts [''diff-index'', ''--name-only'', t, ''--''] w)) = view w"
    and "view (snd (run_git E opts (diff_args t) w)) = view w"
    and "writeFile E p d w = (Inr (), w')
           \<Longrightarrow> view w' = (view w)\<lparr>v_files := (v_files (view w))(p \<mapsto> d)\<rparr>"
    and "run_git E opts [''stash'', ''--keep-index''] w = (Inr r, w')
           \<Longrightarrow> view w' = (view w)\<lparr>v_work := v_index (view w),
                 v_stash := (v_index (view w), v_work (view w)) # v_stash (view w)\<rparr>"
  using assms unfolding contract_save_def by blast+



section \<open>The small repository meets the contracts\<close>

lemma sim_contract_save: "contract_save (sim_env plain) None sim_view"
  unfolding contract_save_def
  by (auto simp: sim_view_def sim_defs diff_args_def Let_def)







section \<open>Saving\<close>

text \<open>
  C4. When change detection (\<^verbatim>\<open>hasUnstagedFiles\<close>) reports no unstaged file,
  \<^verbatim>\<open>gitStashSave\<close> resolves with \<^verbatim>\<open>null\<close> in the state that detection left: no patch
  is captured (the remembered patch path and the ledger variables are as before), nothing is
  stashed or written (no command runs after detection), and everything of the outside
  world that \<^verbatim>\<open>write-tree\<close> and \<^verbatim>\<open>diff-index --name-only\<close> leave unchanged, such as
  the working tree, the index and the stash list, is unchanged.
\<close>

theorem gitStashSave_nothing_unstaged:
  assumes "hasUnstagedFiles E opts s = (Inr False, s1)"
    and "\<forall>w. obs (snd (run_git E opts [''write-tree''] w)) = obs w"
    and "\<forall>t w. obs (snd (run_git E opts [''diff-index'', ''--name-only'', t, ''--''] w)) = obs w"
  shows "gitStashSave E opts s = (Inr None, s1)
       \<and> patchPath s1 = patchPath s \<and> workTree s1 = workTree s \<and> trees s1 = trees s
       \<and> obs (world s1) = obs (world s)"
proof -
  from hasUnstagedFiles_frame [OF assms(1), of obs] assms(2,3)
  have "s1 = s\<lparr>world := world s1\<rparr>" and o: "obs (world s1) = obs (world s)" by simp_all
  then have "patchPath s1 = patchPath s \<and> workTree s1 = workTree s \<and> trees s1 = trees s"
    by (metis state.select_convs(1,2,3) state.surjective state.update_convs(4))
  moreover from assms(1) have "gitStashSave E opts s = (Inr None, s1)"
    by (simp add: gitStashSave_def monad_defs)
  ultimately show ?thesis using o by simp
qed

theorem gitStashSave_nothing_unstaged_witness:
  "gitStashSave (sim_env plain) None clean
     = (Inr None, clean\<lparr>world := (world clean)\<lparr>r_history :=
          [[''write-tree''], [''diff-index'', ''--name-only'', ''tree-v1'', ''--'']]\<rparr>\<rparr>)
   \<and> sim_view ((world clean)\<lparr>r_history :=
          [[''write-tree''], [''diff-index'', ''--name-only'', ''tree-v1'', ''--'']]\<rparr>)
     = sim_view (world clean)"
proof -
  have h: "hasUnstagedFiles (sim_env plain) None clean
     = (Inr False, clean\<lparr>world := (world clean)\<lparr>r_history :=
          [[''write-tree''], [''diff-index'', ''--name-only'', ''tree-v1'', ''--'']]\<rparr>\<rparr>)"
    by (simp add: clean_def hasUnstagedFiles_def getUnstagedFiles_def execGit_def monad_defs
          sim_defs Let_def)
  from gitStashSave_nothing_unstaged [OF h, of sim_view] contract_saveD(1,2) [OF sim_contract_save]
  show ?thesis by simp
qed




section \<open>Saving, then restoring\<close>





section \<open>Restoring\<close>





end
